theory Spec2Isabelle
  imports Main "HOL-Library.Word"
begin

section \<open>Python values used by client.py and server.py\<close>

text \<open>
  A datagram is a \<open>bytes\<close> object: a list of 8-bit values. A Python \<open>str\<close> is a list
  of Unicode code points; \<open>u\<close> turns an ASCII literal into one. Python integers are
  unbounded, so every integer of the programs is an \<open>int\<close>.
\<close>

type_synonym byte = "8 word"
type_synonym pystr = "nat list"

definition u :: "string \<Rightarrow> pystr" where
  "u s = map of_char s"

datatype py_error =
  OverflowError | IndexError | KeyError | AttributeError | ValueError | UnicodeEncodeError

text \<open>
  How a run ends early: \<open>sys.exit(msg)\<close>; an exception that nothing catches; or, in the
  server's loop, an exception caught by \<open>except Exception as error\<close>, which closes the
  sockets and calls \<open>sys.exit(f"ERROR: {error}")\<close>.
\<close>

datatype abort = SysExit pystr | Uncaught py_error | ErrorExit py_error

subsection \<open>\<open>str(n)\<close> and the format specification \<open>02\<close>\<close>

fun str_nat :: "nat \<Rightarrow> pystr" where
  "str_nat n = (if n < 10 then [48 + n] else str_nat (n div 10) @ [48 + n mod 10])"

declare str_nat.simps [simp del]

definition str_int :: "int \<Rightarrow> pystr" where
  "str_int n = (if n < 0 then u ''-'' @ str_nat (nat (- n)) else str_nat (nat n))"

definition fmt02 :: "int \<Rightarrow> pystr" where
  "fmt02 n = (let s = str_int n in if length s < 2 then u ''0'' @ s else s)"

subsection \<open>\<open>int.to_bytes(len, 'big')\<close>, \<open>int.from_bytes(bs, 'big')\<close>, slices\<close>

fun big_endian :: "nat \<Rightarrow> int \<Rightarrow> byte list" where
  "big_endian 0 n = []"
| "big_endian (Suc k) n = big_endian k (n div 256) @ [word_of_int n]"

definition to_bytes :: "int \<Rightarrow> nat \<Rightarrow> py_error + byte list" where
  "to_bytes n len =
     (if n < 0 \<or> 256 ^ len \<le> n then Inl OverflowError else Inr (big_endian len n))"

definition from_bytes :: "byte list \<Rightarrow> int" where
  "from_bytes bs = foldl (\<lambda>acc b. acc * 256 + uint b) 0 bs"

definition slice :: "'a list \<Rightarrow> nat \<Rightarrow> nat \<Rightarrow> 'a list" where
  "slice xs i j = take (j - i) (drop i xs)"

text \<open>
  \<open>bytearray.extend\<close> after a conversion that may raise: the first exception wins.
\<close>

definition bytearray_extend :: "py_error + byte list \<Rightarrow> py_error + byte list \<Rightarrow> py_error + byte list" where
  "bytearray_extend acc r =
     (case acc of Inl e \<Rightarrow> Inl e
      | Inr a \<Rightarrow> (case r of Inl e \<Rightarrow> Inl e | Inr bs \<Rightarrow> Inr (a @ bs)))"

subsection \<open>UTF-8\<close>

text \<open>
  \<open>str.encode('utf-8')\<close> raises on a surrogate; \<open>bytes.decode('utf-8')\<close> accepts
  exactly the well-formed sequences: shortest form, no surrogate, at most U+10FFFF.
\<close>

definition is_surrogate :: "nat \<Rightarrow> bool" where
  "is_surrogate c = (0xD800 \<le> c \<and> c \<le> 0xDFFF)"

definition encode_cp :: "nat \<Rightarrow> byte list" where
  "encode_cp c =
     (if c < 0x80 then [of_nat c]
      else if c < 0x800 then [of_nat (0xC0 + c div 64), of_nat (0x80 + c mod 64)]
      else if c < 0x10000 then
        [of_nat (0xE0 + c div 4096), of_nat (0x80 + c div 64 mod 64), of_nat (0x80 + c mod 64)]
      else
        [of_nat (0xF0 + c div 262144), of_nat (0x80 + c div 4096 mod 64),
         of_nat (0x80 + c div 64 mod 64), of_nat (0x80 + c mod 64)])"

fun encode_utf8 :: "pystr \<Rightarrow> py_error + byte list" where
  "encode_utf8 [] = Inr []"
| "encode_utf8 (c # cs) =
     (if is_surrogate c \<or> 0x110000 \<le> c then Inl UnicodeEncodeError
      else (case encode_utf8 cs of Inl e \<Rightarrow> Inl e | Inr bs \<Rightarrow> Inr (encode_cp c @ bs)))"

definition cont :: "byte \<Rightarrow> bool" where
  "cont b = (0x80 \<le> unat b \<and> unat b \<le> 0xBF)"

text \<open>One code point from the front of a byte string, and the bytes after it.\<close>

fun decode_cp :: "byte list \<Rightarrow> (nat \<times> byte list) option" where
  "decode_cp [] = None"
| "decode_cp (b0 # bs) =
     (let x = unat b0 in
      if x < 0x80 then Some (x, bs)
      else if 0xC2 \<le> x \<and> x \<le> 0xDF then
        (case bs of
           b1 # r \<Rightarrow>
             if cont b1 then Some ((x - 0xC0) * 64 + (unat b1 - 0x80), r) else None
         | _ \<Rightarrow> None)
      else if 0xE0 \<le> x \<and> x \<le> 0xEF then
        (case bs of
           b1 # b2 # r \<Rightarrow>
             (let c = (x - 0xE0) * 4096 + (unat b1 - 0x80) * 64 + (unat b2 - 0x80) in
              if cont b1 \<and> cont b2 \<and> 0x800 \<le> c \<and> \<not> is_surrogate c
              then Some (c, r) else None)
         | _ \<Rightarrow> None)
      else if 0xF0 \<le> x \<and> x \<le> 0xF4 then
        (case bs of
           b1 # b2 # b3 # r \<Rightarrow>
             (let c = (x - 0xF0) * 262144 + (unat b1 - 0x80) * 4096
                      + (unat b2 - 0x80) * 64 + (unat b3 - 0x80) in
              if cont b1 \<and> cont b2 \<and> cont b3 \<and> 0x10000 \<le> c \<and> c < 0x110000
              then Some (c, r) else None)
         | _ \<Rightarrow> None)
      else None)"

lemma decode_cp_shorter: "decode_cp bs = Some (c, r) \<Longrightarrow> length r < length bs"
  by (cases bs) (auto simp: Let_def split: if_splits list.splits)

function decode_utf8 :: "byte list \<Rightarrow> pystr option" where
  "decode_utf8 bs =
     (if bs = [] then Some []
      else (case decode_cp bs of
              None \<Rightarrow> None
            | Some (c, r) \<Rightarrow> map_option ((#) c) (decode_utf8 r)))"
  by pat_completeness auto
termination
  by (relation "measure length") (auto dest: decode_cp_shorter)

declare decode_utf8.simps [simp del]

section \<open>The protocol constants (both programs)\<close>

definition MAGIC_NUM :: int where
  "MAGIC_NUM = 0x36FB"

definition REQUEST_DATE :: int where
  "REQUEST_DATE = 0x0001"

definition REQUEST_TIME :: int where
  "REQUEST_TIME = 0x0002"

text \<open>What \<open>recvfrom\<close> does: a datagram, \<open>socket.timeout\<close>, or another \<open>socket.error\<close>.\<close>

datatype recv_result = Received "byte list" | Timeout | SocketError

section \<open>client.py\<close>

text \<open>
  The operating system's part of one client run: whether the socket is created, whether
  \<open>sendto\<close> succeeds, and what \<open>recvfrom\<close> gives within the second.
\<close>

record client_env =
  socket_created :: bool
  sendto_ok :: bool
  recvfrom :: recv_result

text \<open>The \<open>bytearray\<close> of \<open>create_and_send_packet\<close> (lines 59 to 62).\<close>

definition request_packet :: "int \<Rightarrow> py_error + byte list" where
  "request_packet request_type =
     bytearray_extend (bytearray_extend (bytearray_extend (Inr []) (to_bytes MAGIC_NUM 2))
         (to_bytes 0x0001 2))
       (to_bytes request_type 2)"

text \<open>
  \<open>create_and_send_packet\<close>: the packet that went out and the line printed, or the exit.
  \<open>address\<close> is the resolved pair of host and port.
\<close>

definition create_and_send_packet ::
  "client_env \<Rightarrow> int \<Rightarrow> pystr \<times> int \<Rightarrow> abort + byte list \<times> pystr list" where
  "create_and_send_packet env request_type address =
     (if \<not> socket_created env then Inl (SysExit (u ''ERROR: Socket creation failed''))
      else (case request_packet request_type of
              Inl e \<Rightarrow> Inl (Uncaught e)
            | Inr packet \<Rightarrow>
                if sendto_ok env then
                  Inr (packet,
                    [(if request_type = REQUEST_DATE then u ''Date request sent to ''
                      else u ''Time request sent to '')
                     @ fst address @ u '':'' @ str_int (snd address)])
                else Inl (SysExit (u ''ERROR: Sending failed''))))"

text \<open>
  The nine assignments that open both \<open>process_packet\<close> and \<open>print_packet_stuff\<close>.
  They are reached only with at least 13 bytes, so every index is in range.
\<close>

record response_fields =
  pkt_magic_no :: int
  pkt_packet_type :: int
  pkt_language_type :: int
  pkt_year :: int
  pkt_month :: int
  pkt_day :: int
  pkt_hour :: int
  pkt_minute :: int
  pkt_length :: int

definition unpack :: "byte list \<Rightarrow> response_fields" where
  "unpack received_packet =
     \<lparr> pkt_magic_no = from_bytes (slice received_packet 0 2),
       pkt_packet_type = from_bytes (slice received_packet 2 4),
       pkt_language_type = from_bytes (slice received_packet 4 6),
       pkt_year = from_bytes (slice received_packet 6 8),
       pkt_month = uint (received_packet ! 8),
       pkt_day = uint (received_packet ! 9),
       pkt_hour = uint (received_packet ! 10),
       pkt_minute = uint (received_packet ! 11),
       pkt_length = uint (received_packet ! 12) \<rparr>"

definition language_select :: "int \<Rightarrow> pystr option" where
  "language_select language_type =
     (if language_type = 0x0001 then Some (u ''English'')
      else if language_type = 0x0002 then Some (u ''M'' @ [0x101] @ u ''ori'')
      else if language_type = 0x0003 then Some (u ''German'')
      else None)"

text \<open>An f-string field holding \<open>dict.get\<close>'s result: \<open>None\<close> prints as its name.\<close>

definition str_opt :: "pystr option \<Rightarrow> pystr" where
  "str_opt v = (case v of None \<Rightarrow> u ''None'' | Some s \<Rightarrow> s)"

definition print_packet_stuff :: "byte list \<Rightarrow> abort + pystr list" where
  "print_packet_stuff received_packet =
     (let f = unpack received_packet in
      case decode_utf8 (drop 13 received_packet) of
        None \<Rightarrow> Inl (SysExit (u ''ERROR: Packet has invalid text''))
      | Some text \<Rightarrow>
          Inr [str_opt (language_select (pkt_language_type f)) @ u '' response received:'',
               u ''Text: '' @ text,
               u ''Date: '' @ str_int (pkt_day f) @ u ''/'' @ str_int (pkt_month f)
                 @ u ''/'' @ str_int (pkt_year f),
               u ''Time: '' @ fmt02 (pkt_hour f) @ u '':'' @ fmt02 (pkt_minute f)])"

definition process_packet :: "byte list \<Rightarrow> abort + pystr list" where
  "process_packet received_packet =
     (if length received_packet < 13 then
        Inl (SysExit (u ''ERROR: Packet is too small to be a DT_Response''))
      else
        let f = unpack received_packet in
        if pkt_magic_no f \<noteq> MAGIC_NUM then
          Inl (SysExit (u ''ERROR: Packet magic number is incorrect''))
        else if pkt_packet_type f \<noteq> 0x0002 then
          Inl (SysExit (u ''ERROR: Packet is not a DT_Response''))
        else if pkt_language_type f \<notin> set [0x0001, 0x0002, 0x0003] then
          Inl (SysExit (u ''ERROR: Packet has invalid language''))
        else if pkt_year f > 2100 then
          Inl (SysExit (u ''ERROR: Packet has invalid year''))
        else if pkt_month f < 1 \<or> pkt_month f > 12 then
          Inl (SysExit (u ''ERROR: Packet has invalid month''))
        else if pkt_day f < 1 \<or> pkt_day f > 31 then
          Inl (SysExit (u ''ERROR: Packet has invalid day''))
        else if pkt_hour f < 0 \<or> pkt_hour f > 23 then
          Inl (SysExit (u ''ERROR: Packet has invalid hour''))
        else if pkt_minute f < 0 \<or> pkt_minute f > 59 then
          Inl (SysExit (u ''ERROR: Packet has invalid minute''))
        else if int (length received_packet) \<noteq> 13 + pkt_length f then
          Inl (SysExit (u ''ERROR: Packet text length is incorrect''))
        else print_packet_stuff received_packet)"

definition receive_and_process_response :: "client_env \<Rightarrow> abort + pystr list" where
  "receive_and_process_response env =
     (case recvfrom env of
        Timeout \<Rightarrow> Inl (SysExit (u ''ERROR: Receiving timed out''))
      | SocketError \<Rightarrow> Inl (SysExit (u ''ERROR: Receiving failed''))
      | Received received_packet \<Rightarrow> process_packet received_packet)"

text \<open>
  \<open>main\<close> from \<open>create_and_send_packet\<close> on, for a request type and an address that the
  argument checks let through: the lines printed, and how the run ends (\<open>None\<close>: \<open>main\<close>
  returned).
\<close>

definition client_main :: "client_env \<Rightarrow> int \<Rightarrow> pystr \<times> int \<Rightarrow> pystr list \<times> abort option" where
  "client_main env request_type address =
     (case create_and_send_packet env request_type address of
        Inl a \<Rightarrow> ([], Some a)
      | Inr (packet, sent_line) \<Rightarrow>
          (case receive_and_process_response env of
             Inl a \<Rightarrow> (sent_line, Some a)
           | Inr report \<Rightarrow> (sent_line @ report, None)))"

section \<open>server.py\<close>

subsection \<open>The text of a response\<close>

text \<open>
  The fields of \<open>datetime.datetime.now()\<close> that the server reads. \<open>valid_datetime\<close> is
  the range the \<open>datetime\<close> type keeps them in.
\<close>

record date_time =
  year :: int
  month :: int
  day :: int
  hour :: int
  minute :: int

definition valid_datetime :: "date_time \<Rightarrow> bool" where
  "valid_datetime t =
     (1 \<le> year t \<and> year t \<le> 9999 \<and> 1 \<le> month t \<and> month t \<le> 12 \<and> 1 \<le> day t \<and> day t \<le> 31
      \<and> 0 \<le> hour t \<and> hour t \<le> 23 \<and> 0 \<le> minute t \<and> minute t \<le> 59)"

definition English :: pystr where
  "English = u ''English''"

definition Maori :: pystr where
  "Maori = u ''M'' @ [0x101] @ u ''ori''"

definition German :: pystr where
  "German = u ''German''"

definition english_months :: "pystr list" where
  "english_months =
     [u ''January'', u ''February'', u ''March'', u ''April'', u ''May'', u ''June'',
      u ''July'', u ''August'', u ''September'', u ''October'', u ''November'', u ''December'']"

definition maori_months :: "pystr list" where
  "maori_months =
     [u ''Kohi-t'' @ [0x101] @ u ''tea'', u ''Hui-tanguru'', u ''Pout'' @ [0x16B] @ u ''-te-rangi'',
      u ''Paenga-wh'' @ [0x101] @ u ''wh'' @ [0x101], u ''Haratua'', u ''Pipiri'',
      u ''H'' @ [0x14D] @ u ''ngingoi'', u ''Here-turi-k'' @ [0x14D] @ u ''k'' @ [0x101],
      u ''Mahuru'', u ''Whiringa-'' @ [0x101] @ u ''-nuku'',
      u ''Whiringa-'' @ [0x101] @ u ''-rangi'', u ''Hakihea'']"

definition german_months :: "pystr list" where
  "german_months =
     [u ''Januar'', u ''Februar'', u ''M'' @ [0xE4] @ u ''rz'', u ''April'', u ''Mai'', u ''Juni'',
      u ''Juli'', u ''August'', u ''September'', u ''Oktober'', u ''November'', u ''Dezember'']"

text \<open>The dictionary \<open>MONTH_NAMES\<close>: \<open>None\<close> is a missing key.\<close>

definition MONTH_NAMES :: "pystr \<Rightarrow> pystr list option" where
  "MONTH_NAMES language =
     (if language = English then Some english_months
      else if language = Maori then Some maori_months
      else if language = German then Some german_months
      else None)"

text \<open>Indexing a list: a negative index counts from the end, out of range raises.\<close>

definition getitem :: "'a list \<Rightarrow> int \<Rightarrow> py_error + 'a" where
  "getitem xs i =
     (if 0 \<le> i \<and> i < int (length xs) then Inr (xs ! nat i)
      else if - int (length xs) \<le> i \<and> i < 0 then Inr (xs ! nat (int (length xs) + i))
      else Inl IndexError)"

text \<open>
  \<open>tell_it_what_it_is\<close>: the lookup of the month name may raise; when no branch
  returns, the function falls off its end and the result is \<open>None\<close>.
\<close>

definition tell_it_what_it_is :: "date_time \<Rightarrow> pystr \<Rightarrow> int \<Rightarrow> py_error + pystr option" where
  "tell_it_what_it_is date_time language request_type =
     (case MONTH_NAMES language of
        None \<Rightarrow> Inl KeyError
      | Some names \<Rightarrow>
          (case getitem names (month date_time - 1) of
             Inl e \<Rightarrow> Inl e
           | Inr month_name \<Rightarrow>
               (let time_text =
                      (if request_type = REQUEST_TIME then
                         (if language = English then
                            Some (u ''The current time is '' @ fmt02 (hour date_time) @ u '':''
                                  @ fmt02 (minute date_time))
                          else if language = Maori then
                            Some (u ''Ko te w'' @ [0x101] @ u '' o t'' @ [0x113] @ u ''nei w''
                                  @ [0x101] @ u '' '' @ fmt02 (hour date_time) @ u '':''
                                  @ fmt02 (minute date_time))
                          else if language = German then
                            Some (u ''Die Uhrzeit ist '' @ fmt02 (hour date_time) @ u '':''
                                  @ fmt02 (minute date_time))
                          else None)
                       else None)
                in Inr
                  (if request_type = REQUEST_DATE then
                     (if language = English then
                        Some (u ''Today's date is '' @ month_name @ u '' ''
                              @ str_int (day date_time) @ u '', '' @ str_int (year date_time))
                      else if language = Maori then
                        Some (u ''Ko te r'' @ [0x101] @ u '' o t'' @ [0x113] @ u ''nei r''
                              @ [0x101] @ u '' ko '' @ month_name @ u '' ''
                              @ str_int (day date_time) @ u '', '' @ str_int (year date_time))
                      else if language = German then
                        Some (u ''Heute ist der '' @ str_int (day date_time) @ u ''. ''
                              @ month_name @ u '' '' @ str_int (year date_time))
                      else time_text)
                   else time_text))))"

subsection \<open>The response packet\<close>

text \<open>\<open>textual_representation.encode('utf-8')\<close>; \<open>None\<close> has no such method.\<close>

definition encode :: "pystr option \<Rightarrow> py_error + byte list" where
  "encode textual_representation =
     (case textual_representation of None \<Rightarrow> Inl AttributeError | Some s \<Rightarrow> encode_utf8 s)"

text \<open>
  \<open>create_response\<close>, with the clock's reading as its first argument. The text is
  encoded once for its length (line 181) before the ten \<open>extend\<close> calls.
\<close>

definition create_response :: "date_time \<Rightarrow> pystr \<Rightarrow> int \<Rightarrow> py_error + byte list" where
  "create_response current_time language request_type =
     (case tell_it_what_it_is current_time language request_type of
        Inl e \<Rightarrow> Inl e
      | Inr textual_representation \<Rightarrow>
          (let lang_code =
                 (if language = English then 0x0001 else if language = Maori then 0x0002
                  else 0x0003)
           in case encode textual_representation of
                Inl e \<Rightarrow> Inl e
              | Inr text \<Rightarrow>
                  foldl bytearray_extend (Inr [])
                    [to_bytes MAGIC_NUM 2,
                     to_bytes 0x0002 2,
                     to_bytes lang_code 2,
                     to_bytes (year current_time) 2,
                     to_bytes (month current_time) 1,
                     to_bytes (day current_time) 1,
                     to_bytes (hour current_time) 1,
                     to_bytes (minute current_time) 1,
                     to_bytes (int (length text)) 1,
                     Inr text]))"

subsection \<open>The request validator\<close>

text \<open>\<open>valid_dt_request\<close>: what it returns and what it prints.\<close>

definition valid_dt_request :: "byte list \<Rightarrow> bool \<times> pystr list" where
  "valid_dt_request packet =
     (if length packet \<noteq> 6 then
        (False, [u ''ERROR: Packet length incorrect for a DT_Request, dropping packet''])
      else
        let magic_num = push_bit 8 (uint (packet ! 0)) + uint (packet ! 1) in
        if magic_num \<noteq> MAGIC_NUM then
          (False, [u ''ERROR: Packet magic number is incorrect, dropping packet''])
        else
          let packet_type = push_bit 8 (uint (packet ! 2)) + uint (packet ! 3) in
          if packet_type \<noteq> 0x0001 then
            (False, [u ''ERROR: Packet is not a DT_Request, dropping packet''])
          else
            let request_type = push_bit 8 (uint (packet ! 4)) + uint (packet ! 5) in
            if request_type \<notin> set [REQUEST_DATE, REQUEST_TIME] then
              (False, [u ''ERROR: Packet has invalid type, dropping packet''])
            else (True, []))"

subsection \<open>The dispatch loop\<close>

text \<open>
  The three bound sockets, each named by a number, and \<open>get_language\<close>, which falls off
  its end (\<open>None\<close>) for any other socket.
\<close>

record server =
  ensock :: nat
  masock :: nat
  gersock :: nat

definition get_language :: "server \<Rightarrow> nat \<Rightarrow> pystr option" where
  "get_language self sock =
     (if sock = ensock self then Some English
      else if sock = masock self then Some Maori
      else if sock = gersock self then Some German
      else None)"

text \<open>
  One socket that \<open>select\<close> reported readable, with everything the world supplies while
  the loop body runs on it: the result of \<open>recvfrom\<close>, the sender's host, the clock's
  reading inside \<open>create_response\<close>, and whether \<open>sendto\<close> succeeds.
\<close>

record ready =
  ready_sock :: nat
  received :: recv_result
  sender :: pystr
  clock :: date_time
  sendto_succeeds :: bool

text \<open>
  What a piece of the loop does: the lines it prints, the datagrams it sends, and how it
  ends the process (\<open>None\<close>: it does not, the loop goes on).
\<close>

type_synonym effect = "pystr list \<times> byte list list \<times> abort option"

text \<open>
  Lines 141 to 149: the length test and the send. \<open>sys.exit\<close> raises \<open>SystemExit\<close>,
  which is no \<open>Exception\<close> and no \<open>socket.error\<close>: no handler of the loop catches it,
  the \<open>finally\<close> clause closes the sockets and the process ends.
\<close>

definition send_response :: "byte list \<Rightarrow> bool \<Rightarrow> effect" where
  "send_response response sendto_works =
     (if length response \<ge> 255 then
        ([], [], Some (SysExit (u ''ERROR: Text too long, dropping packet'')))
      else if sendto_works then ([u ''Response sent''], [response], None)
      else ([u ''ERROR: Sending failed, dropping packet''], [], None))"

text \<open>The body of \<open>for sock in readable\<close> (lines 129 to 157).\<close>

definition handle_ready :: "server \<Rightarrow> ready \<Rightarrow> effect" where
  "handle_ready self ev =
     (case received ev of
        Timeout \<Rightarrow> ([u ''ERROR: Receiving timed out, dropping packet''], [], None)
      | SocketError \<Rightarrow> ([u ''ERROR: Receiving failed, dropping packet''], [], None)
      | Received data \<Rightarrow>
          (case valid_dt_request data of
             (False, log) \<Rightarrow> (log, [], None)
           | (True, log) \<Rightarrow>
               (let language = get_language self (ready_sock ev);
                    request_type = push_bit 8 (uint (data ! 4)) + uint (data ! 5);
                    line = str_opt language @ u '' received ''
                           @ (if request_type = REQUEST_DATE then u ''date'' else u ''time'')
                           @ u '' request from '' @ sender ev
                in case language of
                     None \<Rightarrow> (log @ [line], [], Some (ErrorExit KeyError))
                   | Some l \<Rightarrow>
                       (case create_response (clock ev) l request_type of
                          Inl e \<Rightarrow> (log @ [line], [], Some (ErrorExit e))
                        | Inr response \<Rightarrow>
                            (case send_response response (sendto_succeeds ev) of
                               (printed, sent, ended) \<Rightarrow>
                                 (log @ [line] @ printed, sent, ended))))))"

fun for_readable :: "server \<Rightarrow> ready list \<Rightarrow> effect" where
  "for_readable self [] = ([], [], None)"
| "for_readable self (ev # readable) =
     (case handle_ready self ev of
        (printed, sent, Some a) \<Rightarrow> (printed, sent, Some a)
      | (printed, sent, None) \<Rightarrow>
          (case for_readable self readable of
             (printed', sent', ended) \<Rightarrow> (printed @ printed', sent @ sent', ended)))"

text \<open>
  \<open>waiting_for_request\<close> on the first results of \<open>select\<close>, one list of ready sockets
  per round of \<open>while True\<close>. The loop has no exit of its own: with \<open>None\<close> at the end
  it is back at \<open>select\<close>, waiting.
\<close>

fun waiting_for_request :: "server \<Rightarrow> ready list list \<Rightarrow> effect" where
  "waiting_for_request self [] = ([], [], None)"
| "waiting_for_request self (readable # selects) =
     (case for_readable self readable of
        (printed, sent, Some a) \<Rightarrow> (u ''Waiting for requests...'' # printed, sent, Some a)
      | (printed, sent, None) \<Rightarrow>
          (case waiting_for_request self selects of
             (printed', sent', ended) \<Rightarrow>
               (u ''Waiting for requests...'' # printed @ printed', sent @ sent', ended)))"

subsection \<open>The port arguments\<close>

text \<open>
  \<open>int(s)\<close> on a \<open>str\<close>, as CPython 3.11 computes it. The string is first brought to
  ASCII: a character below 127 stays, any other white-space character becomes a space,
  any other decimal digit becomes the ASCII digit of its value, and anything else makes
  the conversion fail. Then white space (tab to carriage return, and space) is skipped
  on both sides of an optional sign and decimal digits, with single underscores allowed
  between digits; more than 4300 digits are refused. \<open>None\<close> is \<open>ValueError\<close>.
\<close>

definition is_space :: "nat \<Rightarrow> bool" where
  "is_space c = (c = 32 \<or> (9 \<le> c \<and> c \<le> 13))"

text \<open>The white-space characters from 127 on.\<close>

definition unicode_space :: "nat \<Rightarrow> bool" where
  "unicode_space c =
     (c = 0x85 \<or> c = 0xA0 \<or> c = 0x1680 \<or> (0x2000 \<le> c \<and> c \<le> 0x200A) \<or> c = 0x2028
      \<or> c = 0x2029 \<or> c = 0x202F \<or> c = 0x205F \<or> c = 0x3000)"

text \<open>
  The decimal digits from 127 on (Unicode 14.0): they come in runs of ten, each run
  listed by its zero.
\<close>

definition decimal_zeros :: "nat list" where
  "decimal_zeros =
     [0x660, 0x6F0, 0x7C0, 0x966, 0x9E6, 0xA66, 0xAE6, 0xB66,
      0xBE6, 0xC66, 0xCE6, 0xD66, 0xDE6, 0xE50, 0xED0, 0xF20,
      0x1040, 0x1090, 0x17E0, 0x1810, 0x1946, 0x19D0, 0x1A80, 0x1A90,
      0x1B50, 0x1BB0, 0x1C40, 0x1C50, 0xA620, 0xA8D0, 0xA900, 0xA9D0,
      0xA9F0, 0xAA50, 0xABF0, 0xFF10, 0x104A0, 0x10D30, 0x11066, 0x110F0,
      0x11136, 0x111D0, 0x112F0, 0x11450, 0x114D0, 0x11650, 0x116C0, 0x11730,
      0x118E0, 0x11950, 0x11C50, 0x11D50, 0x11DA0, 0x16A60, 0x16AC0, 0x16B50,
      0x1D7CE, 0x1D7D8, 0x1D7E2, 0x1D7EC, 0x1D7F6, 0x1E140, 0x1E2F0, 0x1E950,
      0x1FBF0]"

definition todecimal :: "nat \<Rightarrow> nat option" where
  "todecimal c = map_option (\<lambda>z. c - z) (find (\<lambda>z. z \<le> c \<and> c \<le> z + 9) decimal_zeros)"

fun to_ascii :: "pystr \<Rightarrow> pystr option" where
  "to_ascii [] = Some []"
| "to_ascii (c # cs) =
     (if c < 127 then map_option ((#) c) (to_ascii cs)
      else if unicode_space c then map_option ((#) 32) (to_ascii cs)
      else (case todecimal c of
              None \<Rightarrow> None
            | Some d \<Rightarrow> map_option ((#) (48 + d)) (to_ascii cs)))"

definition is_digit :: "nat \<Rightarrow> bool" where
  "is_digit c = (48 \<le> c \<and> c \<le> 57)"

definition strip :: "pystr \<Rightarrow> pystr" where
  "strip s = rev (dropWhile is_space (rev (dropWhile is_space s)))"

fun parse_digits :: "nat \<Rightarrow> pystr \<Rightarrow> nat option" where
  "parse_digits acc [] = Some acc"
| "parse_digits acc (c # cs) =
     (if is_digit c then parse_digits (acc * 10 + (c - 48)) cs
      else if c = 95 then
        (case cs of
           [] \<Rightarrow> None
         | d # _ \<Rightarrow> if is_digit d then parse_digits acc cs else None)
      else None)"

definition py_int :: "pystr \<Rightarrow> int option" where
  "py_int s =
     (case to_ascii s of
        None \<Rightarrow> None
      | Some a \<Rightarrow>
          (let t = strip a;
               negative = (case t of c # _ \<Rightarrow> c = 45 | [] \<Rightarrow> False);
               digits = (case t of c # r \<Rightarrow> if c = 45 \<or> c = 43 then r else t | [] \<Rightarrow> t)
           in case digits of
                [] \<Rightarrow> None
              | d # _ \<Rightarrow>
                  if is_digit d \<and> length (filter is_digit digits) \<le> 4300 then
                    map_option (\<lambda>n. if negative then - int n else int n)
                      (parse_digits 0 digits)
                  else None))"

text \<open>
  The loop of \<open>check_port\<close> (lines 66 to 74): the exit taken at the first port that
  fails, \<open>None\<close> when every port passes.
\<close>

fun check_each :: "pystr list \<Rightarrow> abort option" where
  "check_each [] = None"
| "check_each (port # ports) =
     (case py_int port of
        None \<Rightarrow>
          Some (SysExit (u ''ERROR: Given port '' @ [39] @ port @ [39]
                         @ u '' is not a positive integer''))
      | Some n \<Rightarrow>
          if n \<le> 0 then
            Some (SysExit (u ''ERROR: Given port '' @ [39] @ str_int n @ [39]
                           @ u '' is not a positive integer''))
          else if 1024 \<le> n \<and> n \<le> 64000 then check_each ports
          else
            Some (SysExit (u ''ERROR: Given port '' @ [39] @ str_int n @ [39]
                           @ u '' is not in the range [1024, 64000]'')))"

text \<open>
  \<open>check_port\<close> on \<open>self.ports\<close>, the argument strings: the exit, or the new value of
  \<open>self.ports\<close>. \<open>main\<close> calls it with exactly three strings.
\<close>

definition check_port :: "pystr list \<Rightarrow> abort + int list" where
  "check_port ports =
     (if length ports < 3 then Inl (Uncaught IndexError)
      else if ports ! 0 = ports ! 1 \<or> ports ! 0 = ports ! 2 \<or> ports ! 1 = ports ! 2 then
        Inl (SysExit (u ''ERROR: Duplicate ports given''))
      else (case check_each ports of
              Some a \<Rightarrow> Inl a
            | None \<Rightarrow>
                (case those (map py_int ports) of
                   None \<Rightarrow> Inl (Uncaught ValueError)
                 | Some numbers \<Rightarrow> Inr numbers)))"

section \<open>Notions used in the proofs\<close>

text \<open>
  A Unicode scalar value (what \<open>encode_utf8\<close> accepts); a string whose code points
  all take at most two bytes; a month name that is such a string of at most 16 code
  points; and the thirteen bytes that open a response.
\<close>

definition scalar :: "nat \<Rightarrow> bool" where
  "scalar c = (c < 0x110000 \<and> \<not> is_surrogate c)"

definition small :: "pystr \<Rightarrow> bool" where
  "small s = list_all (\<lambda>c. c < 0x800) s"

definition month_ok :: "pystr \<Rightarrow> bool" where
  "month_ok name = (length name \<le> 16 \<and> small name)"

definition header :: "date_time \<Rightarrow> int \<Rightarrow> nat \<Rightarrow> byte list" where
  "header t lang_code n =
     [0x36, 0xFB, 0x00, 0x02, 0x00, word_of_int lang_code,
      word_of_int (year t div 256), word_of_int (year t), word_of_int (month t),
      word_of_int (day t), word_of_int (hour t), word_of_int (minute t), of_nat n]"

section \<open>Facts about the wire format\<close>

lemma big_endian_2: "big_endian 2 n = [word_of_int (n div 256), word_of_int n]"
  by (simp add: numeral_2_eq_2)

lemma from_bytes_pair: "from_bytes [a, b] = uint a * 256 + uint b"
  by (simp add: from_bytes_def)

lemma push_bit_8_int: "push_bit 8 (x :: int) = x * 256"
  by (simp add: push_bit_eq_mult)

lemma request_packet_bytes:
  "0 \<le> k \<Longrightarrow> k < 256 \<Longrightarrow> request_packet k = Inr [0x36, 0xFB, 0x00, 0x01, 0x00, word_of_int k]"
  by (simp add: request_packet_def to_bytes_def bytearray_extend_def MAGIC_NUM_def big_endian_2)

lemma valid_dt_request_wire:
  "k = 1 \<or> k = 2 \<Longrightarrow> valid_dt_request [0x36, 0xFB, 0x00, 0x01, 0x00, k] = (True, [])"
  by (auto simp: valid_dt_request_def MAGIC_NUM_def REQUEST_DATE_def REQUEST_TIME_def)

lemma slice_6:
  "length packet = 6 \<Longrightarrow> slice packet 0 2 = [packet ! 0, packet ! 1]
     \<and> slice packet 2 4 = [packet ! 2, packet ! 3] \<and> slice packet 4 6 = [packet ! 4, packet ! 5]"
  by (cases packet rule: list.exhaust; simp add: slice_def)
     (auto simp: slice_def length_Suc_conv numeral_eq_Suc)

lemma valid_dt_request_order:
  "valid_dt_request packet =
     (if length packet \<noteq> 6 then
        (False, [u ''ERROR: Packet length incorrect for a DT_Request, dropping packet''])
      else if from_bytes (slice packet 0 2) \<noteq> 0x36FB then
        (False, [u ''ERROR: Packet magic number is incorrect, dropping packet''])
      else if from_bytes (slice packet 2 4) \<noteq> 0x0001 then
        (False, [u ''ERROR: Packet is not a DT_Request, dropping packet''])
      else if from_bytes (slice packet 4 6) \<noteq> 0x0001 \<and> from_bytes (slice packet 4 6) \<noteq> 0x0002 then
        (False, [u ''ERROR: Packet has invalid type, dropping packet''])
      else (True, []))"
proof (cases "length packet = 6")
  case False
  then show ?thesis by (simp add: valid_dt_request_def)
next
  case True
  note s = slice_6 [OF True]
  show ?thesis
    using True
    by (simp add: valid_dt_request_def s from_bytes_pair push_bit_8_int MAGIC_NUM_def
        REQUEST_DATE_def REQUEST_TIME_def Let_def)
qed

lemma valid_dt_request_kind:
  "fst (valid_dt_request data) \<Longrightarrow>
     length data = 6 \<and> (push_bit 8 (uint (data ! 4)) + uint (data ! 5) = REQUEST_DATE
       \<or> push_bit 8 (uint (data ! 4)) + uint (data ! 5) = REQUEST_TIME)"
  by (auto simp: valid_dt_request_def Let_def split: if_splits)

section \<open>UTF-8: decoding what was encoded\<close>

lemma div_64_again: "(c::nat) div 64 div 64 = c div 4096" "c div 4096 div 64 = c div 262144"
  using div_mult2_eq [of c 64 64, symmetric] div_mult2_eq [of c 4096 64, symmetric] by simp_all

lemma join3: "(c::nat) div 4096 * 4096 + c div 64 mod 64 * 64 + c mod 64 = c"
proof -
  have "c div 64 = c div 64 div 64 * 64 + c div 64 mod 64"
    by (simp only: div_mult_mod_eq)
  then have a: "c div 64 = c div 4096 * 64 + c div 64 mod 64"
    by (simp only: div_64_again)
  have "c = c div 64 * 64 + c mod 64" by simp
  also have "\<dots> = (c div 4096 * 64 + c div 64 mod 64) * 64 + c mod 64"
    using a by simp
  finally show ?thesis by (simp add: algebra_simps)
qed

lemma join4:
  "(c::nat) div 262144 * 262144 + c div 4096 mod 64 * 4096 + c div 64 mod 64 * 64 + c mod 64 = c"
proof -
  have "c div 4096 = c div 4096 div 64 * 64 + c div 4096 mod 64"
    by (simp only: div_mult_mod_eq)
  then have a: "c div 4096 = c div 262144 * 64 + c div 4096 mod 64"
    by (simp only: div_64_again)
  have "c = c div 4096 * 4096 + c div 64 mod 64 * 64 + c mod 64"
    by (simp add: join3)
  also have "\<dots> = (c div 262144 * 64 + c div 4096 mod 64) * 4096 + c div 64 mod 64 * 64 + c mod 64"
    using a by simp
  finally show ?thesis by (simp add: algebra_simps)
qed


lemma mod_64_le: "(k::nat) mod 64 \<le> 63"
  using mod_less_divisor [of 64 k] by linarith

lemma unat_byte: "k < 256 \<Longrightarrow> unat (of_nat k :: byte) = k"
  by (simp add: unat_of_nat)

lemma unat_lead:
  "k < 64 \<Longrightarrow> unat (0x80 + of_nat k :: byte) = 0x80 + k"
  "k < 32 \<Longrightarrow> unat (0xC0 + of_nat k :: byte) = 0xC0 + k"
  "k < 16 \<Longrightarrow> unat (0xE0 + of_nat k :: byte) = 0xE0 + k"
  "k < 16 \<Longrightarrow> unat (0xF0 + of_nat k :: byte) = 0xF0 + k"
  using unat_byte [of "0x80 + k"] unat_byte [of "0xC0 + k"] unat_byte [of "0xE0 + k"]
    unat_byte [of "0xF0 + k"]
  by simp_all

lemma decode_cp_1: "c < 0x80 \<Longrightarrow> decode_cp (encode_cp c @ rest) = Some (c, rest)"
  by (simp add: encode_cp_def unat_byte)

lemma decode_cp_2:
  assumes "0x80 \<le> c" "c < 0x800"
  shows "decode_cp (encode_cp c @ rest) = Some (c, rest)"
proof -
  from assms have d: "2 \<le> c div 64" "c div 64 < 32" by simp_all
  show ?thesis
    using assms d by (simp add: encode_cp_def unat_lead cont_def)
qed


lemma decode_cp_3:
  assumes "0x800 \<le> c" "c < 0x10000" "\<not> is_surrogate c"
  shows "decode_cp (encode_cp c @ rest) = Some (c, rest)"
proof -
  from assms have d: "c div 4096 < 16" by simp
  have e: "encode_cp c = [0xE0 + of_nat (c div 4096), 0x80 + of_nat (c div 64 mod 64),
                          0x80 + of_nat (c mod 64)]"
    using assms by (simp add: encode_cp_def)
  have x: "unat (0xE0 + of_nat (c div 4096) :: byte) = 0xE0 + c div 4096"
    using d by (rule unat_lead)
  have y: "unat (0x80 + of_nat (c div 64 mod 64) :: byte) = 0x80 + c div 64 mod 64"
    by (rule unat_lead) simp
  have z: "unat (0x80 + of_nat (c mod 64) :: byte) = 0x80 + c mod 64"
    by (rule unat_lead) simp
  show ?thesis
    unfolding e using assms d
    by (simp add: x y z cont_def join3 Let_def mod_64_le)
qed


lemma decode_cp_4:
  assumes "0x10000 \<le> c" "c < 0x110000"
  shows "decode_cp (encode_cp c @ rest) = Some (c, rest)"
proof -
  from assms have d: "c div 262144 < 16" "c div 262144 \<le> 4" by simp_all
  have e: "encode_cp c = [0xF0 + of_nat (c div 262144), 0x80 + of_nat (c div 4096 mod 64),
                          0x80 + of_nat (c div 64 mod 64), 0x80 + of_nat (c mod 64)]"
    using assms by (simp add: encode_cp_def)
  have w: "unat (0xF0 + of_nat (c div 262144) :: byte) = 0xF0 + c div 262144"
    using d(1) by (rule unat_lead)
  have x: "unat (0x80 + of_nat (c div 4096 mod 64) :: byte) = 0x80 + c div 4096 mod 64"
    by (rule unat_lead) simp
  have y: "unat (0x80 + of_nat (c div 64 mod 64) :: byte) = 0x80 + c div 64 mod 64"
    by (rule unat_lead) simp
  have z: "unat (0x80 + of_nat (c mod 64) :: byte) = 0x80 + c mod 64"
    by (rule unat_lead) simp
  show ?thesis
    unfolding e using assms d
    by (simp add: w x y z cont_def join4 Let_def mod_64_le)
qed

lemma decode_encode_cp:
  assumes "scalar c"
  shows "decode_cp (encode_cp c @ rest) = Some (c, rest)"
proof -
  consider "c < 0x80" | "0x80 \<le> c" "c < 0x800" | "0x800 \<le> c" "c < 0x10000" | "0x10000 \<le> c"
    by linarith
  then show ?thesis
    using assms
    by cases (simp_all add: decode_cp_1 decode_cp_2 decode_cp_3 decode_cp_4 scalar_def)
qed

lemma encode_cp_not_Nil: "encode_cp c \<noteq> []"
  by (simp add: encode_cp_def)

lemma length_encode_cp: "length (encode_cp c) \<le> 4"
  by (simp add: encode_cp_def)

lemma length_encode_cp_small: "c < 0x800 \<Longrightarrow> length (encode_cp c) \<le> 2"
  by (simp add: encode_cp_def)

lemma encode_utf8_scalars:
  "list_all scalar s \<Longrightarrow> encode_utf8 s = Inr (concat (map encode_cp s))"
  by (induction s) (auto simp: scalar_def)

lemma decode_utf8_encoded:
  "list_all scalar s \<Longrightarrow> decode_utf8 (concat (map encode_cp s)) = Some s"
proof (induction s)
  case Nil
  show ?case by (simp add: decode_utf8.simps)
next
  case (Cons c s)
  then have c: "scalar c" and s: "decode_utf8 (concat (map encode_cp s)) = Some s"
    by simp_all
  have "decode_utf8 (encode_cp c @ concat (map encode_cp s))
          = map_option ((#) c) (decode_utf8 (concat (map encode_cp s)))"
    by (subst decode_utf8.simps) (simp add: decode_encode_cp [OF c] encode_cp_not_Nil)
  then show ?case by (simp add: s)
qed

lemma length_encoded_small:
  "list_all (\<lambda>c. c < 0x800) s \<Longrightarrow> length (concat (map encode_cp s)) \<le> 2 * length s"
proof (induction s)
  case Nil
  show ?case by simp
next
  case (Cons c s)
  then have "length (encode_cp c) \<le> 2" and "length (concat (map encode_cp s)) \<le> 2 * length s"
    by (simp_all add: length_encode_cp_small)
  then show ?case by simp
qed

section \<open>The rendered text and the layout of a response\<close>

lemma small_simps:
  "small []" "small (c # s) \<longleftrightarrow> c < 0x800 \<and> small s" "small (s @ t) \<longleftrightarrow> small s \<and> small t"
  by (simp_all add: small_def)

lemma of_char_byte: "(of_char c :: nat) < 256"
  using mod_less_divisor [of 256 "of_char c :: nat"] by (simp only: of_char_mod_256)

lemma small_u: "small (u s)"
proof (induction s)
  case Nil
  show ?case by (simp add: u_def small_def)
next
  case (Cons c s)
  have "(of_char c :: nat) < 0x800" using of_char_byte [of c] by linarith
  with Cons show ?case by (simp add: u_def small_def)
qed

lemma length_u: "length (u s) = length s"
  by (simp add: u_def)

lemma small_str_nat: "small (str_nat n)"
proof (induction n rule: str_nat.induct)
  case (1 n)
  show ?case
  proof (cases "n < 10")
    case True
    then show ?thesis by (subst str_nat.simps) (simp add: small_simps)
  next
    case False
    have "n mod 10 < 10" by simp
    then have "48 + n mod 10 < 0x800" by linarith
    with False 1 show ?thesis by (subst str_nat.simps) (simp add: small_simps)
  qed
qed

lemma length_str_nat: "0 < k \<Longrightarrow> n < 10 ^ k \<Longrightarrow> length (str_nat n) \<le> k"
proof (induction n arbitrary: k rule: str_nat.induct)
  case (1 n)
  show ?case
  proof (cases "n < 10")
    case True
    with 1 show ?thesis by (subst str_nat.simps) simp
  next
    case False
    with "1.prems" have "k \<noteq> 1" by auto
    with "1.prems" obtain j where k: "k = Suc j" "0 < j" by (cases k) auto
    with "1.prems" have "n div 10 < 10 ^ j"
      by (simp add: less_mult_imp_div_less mult.commute)
    with 1 False k have "length (str_nat (n div 10)) \<le> j" by blast
    with False k show ?thesis by (subst str_nat.simps) simp
  qed
qed

lemma length_str_nat_pos: "0 < length (str_nat n)"
  by (subst str_nat.simps) simp

lemma str_int_nonneg: "0 \<le> n \<Longrightarrow> str_int n = str_nat (nat n)"
  by (simp add: str_int_def)

lemma length_str_int:
  "0 \<le> n \<Longrightarrow> n \<le> 99 \<Longrightarrow> length (str_int n) \<le> 2"
  "0 \<le> n \<Longrightarrow> n \<le> 9999 \<Longrightarrow> length (str_int n) \<le> 4"
  using length_str_nat [of 2 "nat n"] length_str_nat [of 4 "nat n"]
  by (simp_all add: str_int_nonneg)

lemma small_str_int: "0 \<le> n \<Longrightarrow> small (str_int n)"
  by (simp add: str_int_nonneg small_str_nat)

lemma fmt02_ok: "0 \<le> n \<Longrightarrow> n \<le> 99 \<Longrightarrow> length (fmt02 n) \<le> 2 \<and> small (fmt02 n)"
  using length_str_int(1) [of n] small_str_int [of n] length_str_nat_pos [of "nat n"]
  by (auto simp: fmt02_def Let_def small_simps small_u length_u str_int_nonneg)


lemma languages_differ: "English \<noteq> Maori" "English \<noteq> German" "Maori \<noteq> German"
  by (simp_all add: English_def Maori_def German_def u_def)

lemma month_tables:
  "length english_months = 12" "list_all month_ok english_months"
  "length maori_months = 12" "list_all month_ok maori_months"
  "length german_months = 12" "list_all month_ok german_months"
  by (simp_all add: english_months_def maori_months_def german_months_def month_ok_def
        small_simps small_u length_u)

lemma month_name_ok:
  assumes names: "MONTH_NAMES language = Some names" and m: "1 \<le> m" "m \<le> 12"
  shows "\<exists>name. getitem names (m - 1) = Inr name \<and> month_ok name"
proof -
  from names have tab: "length names = 12 \<and> list_all month_ok names"
    by (auto simp: MONTH_NAMES_def month_tables split: if_splits)
  with m have i: "nat (m - 1) < length names" by simp
  with tab have "month_ok (names ! nat (m - 1))"
    by (simp add: list_all_length)
  moreover from m tab have "getitem names (m - 1) = Inr (names ! nat (m - 1))"
    by (simp add: getitem_def)
  ultimately show ?thesis by blast
qed

lemma MONTH_NAMES_known:
  "language = English \<or> language = Maori \<or> language = German \<Longrightarrow>
     \<exists>names. MONTH_NAMES language = Some names"
  by (auto simp: MONTH_NAMES_def)

lemma rendered_text:
  assumes now: "valid_datetime now"
    and lang: "language = English \<or> language = Maori \<or> language = German"
    and kind: "request_type = REQUEST_DATE \<or> request_type = REQUEST_TIME"
  shows "\<exists>text. tell_it_what_it_is now language request_type = Inr (Some text)
           \<and> length text \<le> 48 \<and> small text"
proof -
  from MONTH_NAMES_known [OF lang] obtain names where names: "MONTH_NAMES language = Some names"
    by blast
  from now have m: "1 \<le> month now" "month now \<le> 12" by (simp_all add: valid_datetime_def)
  from month_name_ok [OF names m] obtain name
    where name: "getitem names (month now - 1) = Inr name" "month_ok name" by blast
  from now have d: "length (str_int (day now)) \<le> 2" "small (str_int (day now))"
    by (simp_all add: valid_datetime_def length_str_int small_str_int)
  from now have y: "length (str_int (year now)) \<le> 4" "small (str_int (year now))"
    by (simp_all add: valid_datetime_def length_str_int small_str_int)
  from now have h: "length (fmt02 (hour now)) \<le> 2" "small (fmt02 (hour now))"
    using fmt02_ok [of "hour now"] by (simp_all add: valid_datetime_def)
  from now have mi: "length (fmt02 (minute now)) \<le> 2" "small (fmt02 (minute now))"
    using fmt02_ok [of "minute now"] by (simp_all add: valid_datetime_def)
  have kinds: "REQUEST_DATE \<noteq> REQUEST_TIME" by (simp add: REQUEST_DATE_def REQUEST_TIME_def)
  from name(2) have n: "length name \<le> 16" "small name" by (simp_all add: month_ok_def)
  from lang kind show ?thesis
    using d y h mi n kinds languages_differ
    by (auto simp: tell_it_what_it_is_def names name(1) small_simps small_u length_u)
qed

lemma small_scalar: "small s \<Longrightarrow> list_all scalar s"
  unfolding small_def scalar_def is_surrogate_def
  by (induction s) auto

lemma to_bytes_1: "0 \<le> n \<Longrightarrow> n < 256 \<Longrightarrow> to_bytes n (Suc 0) = Inr [word_of_int n]"
  by (simp add: to_bytes_def)

lemma to_bytes_2:
  "0 \<le> n \<Longrightarrow> n < 65536 \<Longrightarrow> to_bytes n 2 = Inr [word_of_int (n div 256), word_of_int n]"
  by (simp add: to_bytes_def big_endian_2)

lemma uint_byte: "0 \<le> n \<Longrightarrow> n < 256 \<Longrightarrow> uint (word_of_int n :: byte) = n"
  by (simp add: uint_word_of_int)

lemma from_bytes_to_bytes_2:
  assumes "0 \<le> n" "n < 65536"
  shows "from_bytes [word_of_int (n div 256), word_of_int n :: byte] = n"
proof -
  from assms have "0 \<le> n div 256" "n div 256 < 256" by simp_all
  then have hi: "uint (word_of_int (n div 256) :: byte) = n div 256" by (rule uint_byte)
  have lo: "uint (word_of_int n :: byte) = n mod 256" by (simp add: uint_word_of_int)
  show ?thesis by (simp add: from_bytes_pair hi lo)
qed

lemma response_layout:
  assumes now: "valid_datetime now"
    and lang: "language = English \<or> language = Maori \<or> language = German"
    and kind: "request_type = REQUEST_DATE \<or> request_type = REQUEST_TIME"
  shows "\<exists>text encoded.
           tell_it_what_it_is now language request_type = Inr (Some text)
           \<and> encode_utf8 text = Inr encoded
           \<and> decode_utf8 encoded = Some text
           \<and> length encoded \<le> 96
           \<and> create_response now language request_type =
               Inr (header now (if language = English then 1 else if language = Maori then 2 else 3)
                      (length encoded) @ encoded)"
proof -
  from rendered_text [OF now lang kind] obtain rendering
    where rendered: "tell_it_what_it_is now language request_type = Inr (Some rendering)"
      "length rendering \<le> 48" "small rendering" by blast
  define encoded where "encoded = concat (map encode_cp rendering)"
  from rendered(3) have sc: "list_all scalar rendering" by (rule small_scalar)
  then have enc: "encode_utf8 rendering = Inr encoded"
    unfolding encoded_def by (rule encode_utf8_scalars)
  from sc have dec: "decode_utf8 encoded = Some rendering"
    unfolding encoded_def by (rule decode_utf8_encoded)
  from length_encoded_small [of rendering] rendered(2,3) have len: "length encoded \<le> 96"
    by (simp add: encoded_def small_def)
  from now have fields:
    "to_bytes (year now) 2 = Inr [word_of_int (year now div 256), word_of_int (year now)]"
    "to_bytes (month now) (Suc 0) = Inr [word_of_int (month now)]"
    "to_bytes (day now) (Suc 0) = Inr [word_of_int (day now)]"
    "to_bytes (hour now) (Suc 0) = Inr [word_of_int (hour now)]"
    "to_bytes (minute now) (Suc 0) = Inr [word_of_int (minute now)]"
    by (simp_all add: valid_datetime_def to_bytes_1 to_bytes_2)
  from len have tl: "to_bytes (int (length encoded)) (Suc 0) = Inr [of_nat (length encoded)]"
    by (simp add: to_bytes_1)
  have preamble: "to_bytes MAGIC_NUM 2 = Inr [0x36, 0xFB]" "to_bytes 2 2 = Inr [0x00, 0x02]"
    "to_bytes 1 2 = Inr [0x00, word_of_int 1]" "to_bytes 3 2 = Inr [0x00, word_of_int 3]"
    "to_bytes 2 2 = Inr [0x00, word_of_int 2]"
    by (simp_all add: to_bytes_2 MAGIC_NUM_def)
  have "create_response now language request_type =
          Inr (header now (if language = English then 1 else if language = Maori then 2 else 3)
                 (length encoded) @ encoded)"
    using lang
    by (auto simp: create_response_def rendered(1) encode_def enc fields tl preamble
          bytearray_extend_def header_def)
  with rendered(1) enc dec len show ?thesis by blast
qed

lemma length_header: "length (header t c n) = 13"
  by (simp add: header_def)

lemma header_nth_12: "(header t c n @ rest) ! 12 = of_nat n"
  by (simp add: header_def)

lemma uint_of_nat_byte: "n < 256 \<Longrightarrow> uint (of_nat n :: byte) = int n"
  using unat_byte [of n] by (simp add: uint_nat)

lemma unpack_header:
  assumes now: "valid_datetime now" and code: "c = 1 \<or> c = 2 \<or> c = 3" and n: "n < 256"
  shows "unpack (header now c n @ rest) =
           \<lparr> pkt_magic_no = 0x36FB, pkt_packet_type = 2, pkt_language_type = c,
             pkt_year = year now, pkt_month = month now, pkt_day = day now,
             pkt_hour = hour now, pkt_minute = minute now, pkt_length = int n \<rparr>"
proof -
  from now have y: "from_bytes [word_of_int (year now div 256), word_of_int (year now) :: byte] = year now"
    by (intro from_bytes_to_bytes_2) (simp_all add: valid_datetime_def)
  from now have f: "uint (word_of_int (month now) :: byte) = month now"
    "uint (word_of_int (day now) :: byte) = day now"
    "uint (word_of_int (hour now) :: byte) = hour now"
    "uint (word_of_int (minute now) :: byte) = minute now"
    by (simp_all add: valid_datetime_def uint_byte)
  from code have l: "from_bytes [0, word_of_int c :: byte] = c"
    by (auto simp: from_bytes_pair)
  have m: "from_bytes [0x36, 0xFB :: byte] = 0x36FB" "from_bytes [0x00, 0x02 :: byte] = 2"
    by (simp_all add: from_bytes_pair)
  show ?thesis
    by (simp add: unpack_def header_def slice_def y f l m uint_of_nat_byte [OF n])
qed


lemma language_select_code:
  "language = English \<or> language = Maori \<or> language = German \<Longrightarrow>
     language_select (if language = English then 1 else if language = Maori then 2 else 3)
       = Some language"
  using languages_differ
  by (auto simp: language_select_def English_def Maori_def German_def)

lemma get_language_known:
  "get_language self sock = Some language \<Longrightarrow>
     language = English \<or> language = Maori \<or> language = German"
  by (auto simp: get_language_def split: if_splits)

lemma tell_it_what_it_is_not_None:
  assumes lang: "language = English \<or> language = Maori \<or> language = German"
    and kind: "request_type = REQUEST_DATE \<or> request_type = REQUEST_TIME"
  shows "tell_it_what_it_is date_time language request_type \<noteq> Inr None"
  using lang kind
  by (auto simp: tell_it_what_it_is_def MONTH_NAMES_def Let_def split: sum.splits)


lemma response_never_oversized:
  assumes now: "valid_datetime now"
    and lang: "language = English \<or> language = Maori \<or> language = German"
    and kind: "request_type = REQUEST_DATE \<or> request_type = REQUEST_TIME"
  shows "\<exists>response. create_response now language request_type = Inr response
           \<and> length response \<le> 109"
proof -
  from response_layout [OF now lang kind] obtain encoded c
    where "length (encoded :: byte list) \<le> 96"
      and "create_response now language request_type = Inr (header now c (length encoded) @ encoded)"
    by blast
  then show ?thesis by (simp add: length_header)
qed

lemma oversized_response_exits:
  "255 \<le> length response \<Longrightarrow>
     send_response response sendto_works =
       ([], [], Some (SysExit (u ''ERROR: Text too long, dropping packet'')))"
  by (simp add: send_response_def)


text \<open>
  The model run on one reading of the clock: the bytes are those of the Maori date
  text for 17 May 2024, 09:30.
\<close>

lemma create_response_example:
  "create_response \<lparr>year = 2024, month = 5, day = 17, hour = 9, minute = 30\<rparr> Maori REQUEST_DATE =
     Inr [0x36, 0xFB, 0x00, 0x02, 0x00, 0x02, 0x07, 0xE8, 0x05, 0x11, 0x09, 0x1E, 0x2A, 0x4B, 0x6F, 0x20, 0x74, 0x65, 0x20, 0x72, 0xC4, 0x81, 0x20, 0x6F, 0x20, 0x74, 0xC4, 0x93, 0x6E, 0x65, 0x69, 0x20, 0x72, 0xC4, 0x81, 0x20, 0x6B, 0x6F, 0x20, 0x48, 0x61, 0x72, 0x61, 0x74, 0x75, 0x61, 0x20, 0x31, 0x37, 0x2C, 0x20, 0x32, 0x30, 0x32, 0x34]"
  by (simp add: create_response_def tell_it_what_it_is_def MONTH_NAMES_def getitem_def
        maori_months_def English_def Maori_def German_def REQUEST_DATE_def REQUEST_TIME_def
        str_int_def str_nat.simps u_def encode_def encode_cp_def is_surrogate_def
        to_bytes_def big_endian_2 bytearray_extend_def MAGIC_NUM_def)

section \<open>The request: encoding, validation, dropping\<close>

text \<open>
  Claim C6. For a request type that is \<open>REQUEST_DATE\<close> or \<open>REQUEST_TIME\<close>, and a client
  whose socket is created and whose \<open>sendto\<close> succeeds, the packet that
  \<open>create_and_send_packet\<close> sends has six bytes, \<open>valid_dt_request\<close> returns \<open>True\<close> on it
  and prints nothing, and the request type the server's loop reads from bytes 4 and 5
  is the request type the client started from.
\<close>

theorem request_round_trip:
  assumes kind: "request_type = REQUEST_DATE \<or> request_type = REQUEST_TIME"
    and env: "socket_created env" "sendto_ok env"
  shows "\<exists>packet line.
           create_and_send_packet env request_type address = Inr (packet, line)
           \<and> length packet = 6
           \<and> valid_dt_request packet = (True, [])
           \<and> push_bit 8 (uint (packet ! 4)) + uint (packet ! 5) = request_type"
proof -
  define packet :: "byte list"
    where "packet = [0x36, 0xFB, 0x00, 0x01, 0x00, word_of_int request_type]"
  from kind have range: "0 \<le> request_type" "request_type < 256"
    by (auto simp: REQUEST_DATE_def REQUEST_TIME_def)
  have built: "request_packet request_type = Inr packet"
    unfolding packet_def by (rule request_packet_bytes [OF range])
  have sent: "\<exists>line. create_and_send_packet env request_type address = Inr (packet, line)"
    using env by (simp add: create_and_send_packet_def built)
  have valid: "valid_dt_request packet = (True, [])"
    unfolding packet_def using kind
    by (intro valid_dt_request_wire) (auto simp: REQUEST_DATE_def REQUEST_TIME_def)
  have kind_back: "push_bit 8 (uint (packet ! 4)) + uint (packet ! 5) = request_type"
    using kind by (auto simp: packet_def REQUEST_DATE_def REQUEST_TIME_def)
  from sent valid kind_back show ?thesis
    by (auto simp: packet_def)
qed

theorem request_round_trip_witness:
  "(REQUEST_TIME = REQUEST_DATE \<or> REQUEST_TIME = REQUEST_TIME)
   \<and> (\<exists>packet line.
         create_and_send_packet \<lparr>socket_created = True, sendto_ok = True, recvfrom = Timeout\<rparr>
           REQUEST_TIME (u ''127.0.0.1'', 5000) = Inr (packet, line)
         \<and> length packet = 6
         \<and> valid_dt_request packet = (True, [])
         \<and> push_bit 8 (uint (packet ! 4)) + uint (packet ! 5) = REQUEST_TIME)"
  using request_round_trip [of REQUEST_TIME
      "\<lparr>socket_created = True, sendto_ok = True, recvfrom = Timeout\<rparr>" "(u ''127.0.0.1'', 5000)"]
  by simp

text \<open>
  Claim C4. \<open>valid_dt_request\<close> tests, in this order and stopping at the first test
  that fails, the length (exactly 6), the magic number (\<open>0x36FB\<close>), the packet type
  (\<open>0x0001\<close>) and the request type (\<open>0x0001\<close> or \<open>0x0002\<close>), each 16-bit field read
  big-endian: it prints the one line of the first failing test and returns \<open>False\<close>.
  For a datagram it rejects, the loop body prints that line only, sends nothing and
  does not end the loop, which goes on with the next ready socket.
\<close>

theorem rejected_request_dropped:
  assumes recv: "received ev = Received packet"
  shows "valid_dt_request packet =
          (if length packet \<noteq> 6 then
             (False, [u ''ERROR: Packet length incorrect for a DT_Request, dropping packet''])
           else if from_bytes (slice packet 0 2) \<noteq> 0x36FB then
             (False, [u ''ERROR: Packet magic number is incorrect, dropping packet''])
           else if from_bytes (slice packet 2 4) \<noteq> 0x0001 then
             (False, [u ''ERROR: Packet is not a DT_Request, dropping packet''])
           else if from_bytes (slice packet 4 6) \<noteq> 0x0001
                   \<and> from_bytes (slice packet 4 6) \<noteq> 0x0002 then
             (False, [u ''ERROR: Packet has invalid type, dropping packet''])
           else (True, []))
        \<and> (\<not> fst (valid_dt_request packet) \<longrightarrow>
              handle_ready self ev = (snd (valid_dt_request packet), [], None)
              \<and> for_readable self (ev # readable) =
                  (case for_readable self readable of
                     (printed, sent, ended) \<Rightarrow>
                       (snd (valid_dt_request packet) @ printed, sent, ended)))"
proof (intro conjI impI)
  show "valid_dt_request packet =
          (if length packet \<noteq> 6 then
             (False, [u ''ERROR: Packet length incorrect for a DT_Request, dropping packet''])
           else if from_bytes (slice packet 0 2) \<noteq> 0x36FB then
             (False, [u ''ERROR: Packet magic number is incorrect, dropping packet''])
           else if from_bytes (slice packet 2 4) \<noteq> 0x0001 then
             (False, [u ''ERROR: Packet is not a DT_Request, dropping packet''])
           else if from_bytes (slice packet 4 6) \<noteq> 0x0001
                   \<and> from_bytes (slice packet 4 6) \<noteq> 0x0002 then
             (False, [u ''ERROR: Packet has invalid type, dropping packet''])
           else (True, []))"
    by (rule valid_dt_request_order)
next
  assume rejected: "\<not> fst (valid_dt_request packet)"
  then obtain log where v: "valid_dt_request packet = (False, log)"
    by (cases "valid_dt_request packet") auto
  show dropped: "handle_ready self ev = (snd (valid_dt_request packet), [], None)"
    by (simp add: handle_ready_def recv v)
  show "for_readable self (ev # readable) =
          (case for_readable self readable of
             (printed, sent, ended) \<Rightarrow> (snd (valid_dt_request packet) @ printed, sent, ended))"
    by (simp add: dropped split: prod.splits)
qed

theorem rejected_request_dropped_witness:
  "handle_ready \<lparr>ensock = 3, masock = 4, gersock = 5\<rparr>
     \<lparr>ready_sock = 4, received = Received [0x36, 0xFB, 0x00, 0x01, 0x00], sender = u ''127.0.0.1'',
      clock = \<lparr>year = 2024, month = 5, day = 17, hour = 9, minute = 30\<rparr>,
      sendto_succeeds = True\<rparr>
   = ([u ''ERROR: Packet length incorrect for a DT_Request, dropping packet''], [], None)"
  using rejected_request_dropped
    [of "\<lparr>ready_sock = 4, received = Received [0x36, 0xFB, 0x00, 0x01, 0x00],
          sender = u ''127.0.0.1'',
          clock = \<lparr>year = 2024, month = 5, day = 17, hour = 9, minute = 30\<rparr>,
          sendto_succeeds = True\<rparr>"
        "[0x36, 0xFB, 0x00, 0x01, 0x00]" "\<lparr>ensock = 3, masock = 4, gersock = 5\<rparr>" "[]"]
  by simp

section \<open>The client's checks of a response\<close>

text \<open>
  Claim C10. In \<open>process_packet\<close>, for a packet of at least 13 bytes, the hour is the
  value of one byte: it lies between 0 and 255 and is never below 0. So the test
  \<open>hour < 0\<close> never holds, and whenever the packet is refused as having an invalid hour
  the hour is above 23.
\<close>

theorem hour_lower_bound_unreachable:
  assumes "13 \<le> length received_packet"
  shows "0 \<le> pkt_hour (unpack received_packet) \<and> pkt_hour (unpack received_packet) \<le> 255
         \<and> \<not> pkt_hour (unpack received_packet) < 0
         \<and> (process_packet received_packet = Inl (SysExit (u ''ERROR: Packet has invalid hour''))
              \<longrightarrow> 23 < pkt_hour (unpack received_packet))"
proof -
  have byte: "uint (received_packet ! 10) \<le> 255"
    using uint_bounded [of "received_packet ! 10"] by simp
  have "process_packet received_packet = Inl (SysExit (u ''ERROR: Packet has invalid hour''))
        \<Longrightarrow> 23 < pkt_hour (unpack received_packet)"
    by (auto simp: process_packet_def print_packet_stuff_def Let_def u_def unpack_def
          split: if_splits option.splits)
  with byte show ?thesis
    by (simp add: unpack_def)
qed

theorem hour_lower_bound_unreachable_witness:
  "process_packet [0x36, 0xFB, 0x00, 0x02, 0x00, 0x01, 0x07, 0xE8, 5, 17, 24, 30, 0]
     = Inl (SysExit (u ''ERROR: Packet has invalid hour''))
   \<and> 23 < pkt_hour (unpack [0x36, 0xFB, 0x00, 0x02, 0x00, 0x01, 0x07, 0xE8, 5, 17, 24, 30, 0])"
proof -
  have "process_packet [0x36, 0xFB, 0x00, 0x02, 0x00, 0x01, 0x07, 0xE8, 5, 17, 24, 30, 0]
          = Inl (SysExit (u ''ERROR: Packet has invalid hour''))"
    by (simp add: process_packet_def unpack_def from_bytes_def slice_def MAGIC_NUM_def)
  with hour_lower_bound_unreachable
    [of "[0x36, 0xFB, 0x00, 0x02, 0x00, 0x01, 0x07, 0xE8, 5, 17, 24, 30, 0]"]
  show ?thesis by simp
qed

lemma process_packet_rejects:
  "(\<exists>msg. process_packet received_packet = Inl (SysExit msg)) \<longleftrightarrow>
     (length received_packet < 13
      \<or> pkt_magic_no (unpack received_packet) \<noteq> 0x36FB
      \<or> pkt_packet_type (unpack received_packet) \<noteq> 0x0002
      \<or> pkt_language_type (unpack received_packet) \<notin> {1, 2, 3}
      \<or> pkt_year (unpack received_packet) > 2100
      \<or> pkt_month (unpack received_packet) \<notin> {1..12}
      \<or> pkt_day (unpack received_packet) \<notin> {1..31}
      \<or> pkt_hour (unpack received_packet) \<notin> {0..23}
      \<or> pkt_minute (unpack received_packet) \<notin> {0..59}
      \<or> int (length received_packet) \<noteq> 13 + pkt_length (unpack received_packet)
      \<or> decode_utf8 (drop 13 received_packet) = None)"
  by (auto simp: process_packet_def print_packet_stuff_def Let_def MAGIC_NUM_def
        split: option.splits)

lemma process_packet_never_raises:
  "process_packet received_packet = Inl a \<Longrightarrow> \<exists>msg. a = SysExit msg"
  by (auto simp: process_packet_def print_packet_stuff_def Let_def split: if_splits option.splits)

text \<open>
  Claim C5. \<open>process_packet\<close> (with \<open>print_packet_stuff\<close>, which it ends in) exits
  with an error message exactly when the packet has fewer than 13 bytes, or its magic
  number is not \<open>0x36FB\<close>, or its packet type is not \<open>0x0002\<close>, or its language code is
  not 1, 2 or 3, or its year is above 2100, or its month is outside 1..12, its day
  outside 1..31, its hour outside 0..23, its minute outside 0..59, or its length is not
  13 plus the text length byte, or the bytes from offset 13 on are not valid UTF-8.
  Every other packet is reported; nothing else can happen. When it exits, the client
  has printed the line of the send step and nothing of the packet.
\<close>

theorem response_rejected_iff:
  "((\<exists>msg. process_packet received_packet = Inl (SysExit msg)) \<longleftrightarrow>
     (length received_packet < 13
      \<or> pkt_magic_no (unpack received_packet) \<noteq> 0x36FB
      \<or> pkt_packet_type (unpack received_packet) \<noteq> 0x0002
      \<or> pkt_language_type (unpack received_packet) \<notin> {1, 2, 3}
      \<or> pkt_year (unpack received_packet) > 2100
      \<or> pkt_month (unpack received_packet) \<notin> {1..12}
      \<or> pkt_day (unpack received_packet) \<notin> {1..31}
      \<or> pkt_hour (unpack received_packet) \<notin> {0..23}
      \<or> pkt_minute (unpack received_packet) \<notin> {0..59}
      \<or> int (length received_packet) \<noteq> 13 + pkt_length (unpack received_packet)
      \<or> decode_utf8 (drop 13 received_packet) = None))
   \<and> ((\<exists>report. process_packet received_packet = Inr report)
        \<or> (\<exists>msg. process_packet received_packet = Inl (SysExit msg)))
   \<and> (\<forall>env request_type address packet sent_line msg.
         create_and_send_packet env request_type address = Inr (packet, sent_line)
         \<and> recvfrom env = Received received_packet
         \<and> process_packet received_packet = Inl (SysExit msg)
         \<longrightarrow> client_main env request_type address = (sent_line, Some (SysExit msg)))"
proof (intro conjI allI impI)
  show "(\<exists>msg. process_packet received_packet = Inl (SysExit msg)) \<longleftrightarrow>
     (length received_packet < 13
      \<or> pkt_magic_no (unpack received_packet) \<noteq> 0x36FB
      \<or> pkt_packet_type (unpack received_packet) \<noteq> 0x0002
      \<or> pkt_language_type (unpack received_packet) \<notin> {1, 2, 3}
      \<or> pkt_year (unpack received_packet) > 2100
      \<or> pkt_month (unpack received_packet) \<notin> {1..12}
      \<or> pkt_day (unpack received_packet) \<notin> {1..31}
      \<or> pkt_hour (unpack received_packet) \<notin> {0..23}
      \<or> pkt_minute (unpack received_packet) \<notin> {0..59}
      \<or> int (length received_packet) \<noteq> 13 + pkt_length (unpack received_packet)
      \<or> decode_utf8 (drop 13 received_packet) = None)"
    by (rule process_packet_rejects)
next
  show "(\<exists>report. process_packet received_packet = Inr report)
        \<or> (\<exists>msg. process_packet received_packet = Inl (SysExit msg))"
    using process_packet_never_raises [of received_packet]
    by (cases "process_packet received_packet") auto
next
  fix env request_type address packet sent_line msg
  assume "create_and_send_packet env request_type address = Inr (packet, sent_line)
          \<and> recvfrom env = Received received_packet
          \<and> process_packet received_packet = Inl (SysExit msg)"
  then show "client_main env request_type address = (sent_line, Some (SysExit msg))"
    by (simp add: client_main_def receive_and_process_response_def)
qed

theorem response_rejected_iff_witness:
  "(\<exists>msg. process_packet [0x36, 0xFB, 0x00, 0x02, 0x00, 0x01, 0x08, 0x35, 5, 17, 9, 30, 0]
            = Inl (SysExit msg))
   \<and> pkt_year (unpack [0x36, 0xFB, 0x00, 0x02, 0x00, 0x01, 0x08, 0x35, 5, 17, 9, 30, 0]) = 2101"
proof -
  have y: "pkt_year (unpack [0x36, 0xFB, 0x00, 0x02, 0x00, 0x01, 0x08, 0x35, 5, 17, 9, 30, 0]) = 2101"
    by (simp add: unpack_def from_bytes_def slice_def)
  with response_rejected_iff
    [of "[0x36, 0xFB, 0x00, 0x02, 0x00, 0x01, 0x08, 0x35, 5, 17, 9, 30, 0]"]
  show ?thesis by simp
qed

text \<open>
  Claim C3. When the client's socket is created, its request (date or time) is sent, a
  packet arrives, every check of \<open>process_packet\<close> passes and the text is valid UTF-8,
  \<open>main\<close> returns normally after printing five lines: at the send, the request kind
  (\<open>Date request sent to\<close> or \<open>Time request sent to\<close>, with host and port); then,
  for the packet, the language named by its code, the decoded text, the date as
  day/month/year and the time as two-digit hour and minute.
\<close>

theorem completed_session_output:
  assumes kind: "request_type = REQUEST_DATE \<or> request_type = REQUEST_TIME"
    and env: "socket_created env" "sendto_ok env"
    and recv: "recvfrom env = Received received_packet"
    and checks: "13 \<le> length received_packet"
      "pkt_magic_no (unpack received_packet) = 0x36FB"
      "pkt_packet_type (unpack received_packet) = 0x0002"
      "pkt_language_type (unpack received_packet) \<in> {1, 2, 3}"
      "pkt_year (unpack received_packet) \<le> 2100"
      "pkt_month (unpack received_packet) \<in> {1..12}"
      "pkt_day (unpack received_packet) \<in> {1..31}"
      "pkt_hour (unpack received_packet) \<in> {0..23}"
      "pkt_minute (unpack received_packet) \<in> {0..59}"
      "int (length received_packet) = 13 + pkt_length (unpack received_packet)"
    and utf8: "decode_utf8 (drop 13 received_packet) = Some text"
  shows "client_main env request_type address =
           ([(if request_type = REQUEST_DATE then u ''Date'' else u ''Time'')
               @ u '' request sent to '' @ fst address @ u '':'' @ str_int (snd address),
             (if pkt_language_type (unpack received_packet) = 1 then u ''English''
              else if pkt_language_type (unpack received_packet) = 2
                then u ''M'' @ [0x101] @ u ''ori''
              else u ''German'') @ u '' response received:'',
             u ''Text: '' @ text,
             u ''Date: '' @ str_int (pkt_day (unpack received_packet)) @ u ''/''
               @ str_int (pkt_month (unpack received_packet)) @ u ''/''
               @ str_int (pkt_year (unpack received_packet)),
             u ''Time: '' @ fmt02 (pkt_hour (unpack received_packet)) @ u '':''
               @ fmt02 (pkt_minute (unpack received_packet))],
            None)"
proof -
  have sent: "create_and_send_packet env request_type address =
      Inr ([0x36, 0xFB, 0x00, 0x01, 0x00, word_of_int request_type],
           [(if request_type = REQUEST_DATE then u ''Date'' else u ''Time'')
               @ u '' request sent to '' @ fst address @ u '':'' @ str_int (snd address)])"
    using kind env
    by (auto simp: create_and_send_packet_def request_packet_bytes REQUEST_DATE_def
          REQUEST_TIME_def u_def)
  have lang: "str_opt (language_select (pkt_language_type (unpack received_packet))) =
      (if pkt_language_type (unpack received_packet) = 1 then u ''English''
       else if pkt_language_type (unpack received_packet) = 2 then u ''M'' @ [0x101] @ u ''ori''
       else u ''German'')"
    using checks(4) by (auto simp: language_select_def str_opt_def)
  have printed: "print_packet_stuff received_packet =
      Inr [str_opt (language_select (pkt_language_type (unpack received_packet)))
             @ u '' response received:'',
           u ''Text: '' @ text,
           u ''Date: '' @ str_int (pkt_day (unpack received_packet)) @ u ''/''
             @ str_int (pkt_month (unpack received_packet)) @ u ''/''
             @ str_int (pkt_year (unpack received_packet)),
           u ''Time: '' @ fmt02 (pkt_hour (unpack received_packet)) @ u '':''
             @ fmt02 (pkt_minute (unpack received_packet))]"
    by (simp add: print_packet_stuff_def utf8 Let_def)
  have "process_packet received_packet = print_packet_stuff received_packet"
    using checks by (simp add: process_packet_def Let_def MAGIC_NUM_def)
  then have "receive_and_process_response env = print_packet_stuff received_packet"
    by (simp add: receive_and_process_response_def recv)
  with sent printed lang show ?thesis
    by (simp add: client_main_def)
qed


lemma decode_utf8_Hi: "decode_utf8 [0x48, 0x69] = Some (u ''Hi'')"
  by (simp add: decode_utf8.simps u_def)


theorem completed_session_output_witness:
  "client_main
     \<lparr>socket_created = True, sendto_ok = True,
      recvfrom = Received [0x36, 0xFB, 0x00, 0x02, 0x00, 0x01, 0x07, 0xE8, 5, 17, 9, 30, 2,
                           0x48, 0x69]\<rparr>
     REQUEST_DATE (u ''127.0.0.1'', 5000)
   = ([u ''Date request sent to 127.0.0.1:5000'', u ''English response received:'',
       u ''Text: Hi'', u ''Date: 17/5/2024'', u ''Time: 09:30''], None)"
  using completed_session_output
    [of REQUEST_DATE
        "\<lparr>socket_created = True, sendto_ok = True,
          recvfrom = Received [0x36, 0xFB, 0x00, 0x02, 0x00, 0x01, 0x07, 0xE8, 5, 17, 9, 30, 2,
                               0x48, 0x69]\<rparr>"
        "[0x36, 0xFB, 0x00, 0x02, 0x00, 0x01, 0x07, 0xE8, 5, 17, 9, 30, 2, 0x48, 0x69]"
        "u ''Hi''" "(u ''127.0.0.1'', 5000)"]
  by (simp add: unpack_def from_bytes_def slice_def decode_utf8_Hi str_int_def str_nat.simps
        fmt02_def u_def)


section \<open>The server's responses\<close>

text \<open>
  Claim C7. For a reading of the clock (fields in the ranges \<open>datetime\<close> keeps), a
  language among English, Maori and German, and a request type that is
  \<open>REQUEST_DATE\<close> or \<open>REQUEST_TIME\<close>: \<open>tell_it_what_it_is\<close> renders a text, the text
  encodes to UTF-8, \<open>create_response\<close> returns a packet whose byte 12 holds the number
  of bytes of that encoding, whose length is 13 plus that number, and whose bytes from
  offset 13 on are the encoding.
\<close>

theorem response_length_field:
  assumes now: "valid_datetime now"
    and lang: "language = English \<or> language = Maori \<or> language = German"
    and kind: "request_type = REQUEST_DATE \<or> request_type = REQUEST_TIME"
  shows "\<exists>text encoded response.
           tell_it_what_it_is now language request_type = Inr (Some text)
           \<and> encode_utf8 text = Inr encoded
           \<and> create_response now language request_type = Inr response
           \<and> uint (response ! 12) = int (length encoded)
           \<and> length response = 13 + length encoded
           \<and> drop 13 response = encoded"
proof -
  from response_layout [OF now lang kind] obtain rendering encoded
    where r: "tell_it_what_it_is now language request_type = Inr (Some rendering)"
      and e: "encode_utf8 rendering = Inr encoded" "length encoded \<le> 96"
      and c: "create_response now language request_type =
               Inr (header now (if language = English then 1 else if language = Maori then 2 else 3)
                      (length encoded) @ encoded)"
    by blast
  let ?response = "header now (if language = English then 1 else if language = Maori then 2 else 3)
                     (length encoded) @ encoded"
  from e(2) have "uint (?response ! 12) = int (length encoded)"
    by (simp only: header_nth_12) (simp add: uint_of_nat_byte)
  moreover have "length ?response = 13 + length encoded"
    by (simp add: length_header)
  moreover have "drop 13 ?response = encoded"
    by (simp add: length_header)
  ultimately show ?thesis
    using r e(1) c by blast
qed


theorem response_length_field_witness:
  "valid_datetime \<lparr>year = 2024, month = 5, day = 17, hour = 9, minute = 30\<rparr>
   \<and> (\<exists>text encoded response.
         tell_it_what_it_is \<lparr>year = 2024, month = 5, day = 17, hour = 9, minute = 30\<rparr>
           Maori REQUEST_DATE = Inr (Some text)
         \<and> encode_utf8 text = Inr encoded
         \<and> create_response \<lparr>year = 2024, month = 5, day = 17, hour = 9, minute = 30\<rparr>
             Maori REQUEST_DATE = Inr response
         \<and> uint (response ! 12) = int (length encoded)
         \<and> length response = 13 + length encoded
         \<and> drop 13 response = encoded)"
  using response_length_field
    [of "\<lparr>year = 2024, month = 5, day = 17, hour = 9, minute = 30\<rparr>" Maori REQUEST_DATE]
  by (simp add: valid_datetime_def)

text \<open>
  Claim C8. For a reading of the clock with a year of at most 2100, each of the three
  languages and each of the two request types, the packet \<open>create_response\<close> builds
  passes every test of \<open>process_packet\<close> and of \<open>print_packet_stuff\<close>: the client
  reports it. The magic number and packet type read back are the protocol's, the
  language code read back selects the server's language, year, month, day, hour and
  minute read back are the clock's, the length test holds, and the text decoded is the
  text rendered.
\<close>

theorem response_accepted_by_client:
  assumes now: "valid_datetime now" and y: "year now \<le> 2100"
    and lang: "language = English \<or> language = Maori \<or> language = German"
    and kind: "request_type = REQUEST_DATE \<or> request_type = REQUEST_TIME"
  shows "\<exists>response text.
           create_response now language request_type = Inr response
           \<and> tell_it_what_it_is now language request_type = Inr (Some text)
           \<and> process_packet response =
               Inr [language @ u '' response received:'',
                    u ''Text: '' @ text,
                    u ''Date: '' @ str_int (day now) @ u ''/'' @ str_int (month now) @ u ''/''
                      @ str_int (year now),
                    u ''Time: '' @ fmt02 (hour now) @ u '':'' @ fmt02 (minute now)]
           \<and> pkt_magic_no (unpack response) = MAGIC_NUM
           \<and> pkt_packet_type (unpack response) = 0x0002
           \<and> language_select (pkt_language_type (unpack response)) = Some language
           \<and> pkt_year (unpack response) = year now
           \<and> pkt_month (unpack response) = month now
           \<and> pkt_day (unpack response) = day now
           \<and> pkt_hour (unpack response) = hour now
           \<and> pkt_minute (unpack response) = minute now
           \<and> int (length response) = 13 + pkt_length (unpack response)
           \<and> decode_utf8 (drop 13 response) = Some text"
proof -
  let ?code = "if language = English then 1 else if language = Maori then 2 else 3 :: int"
  from response_layout [OF now lang kind] obtain rendering encoded
    where r: "tell_it_what_it_is now language request_type = Inr (Some rendering)"
      and d: "decode_utf8 encoded = Some rendering" and n: "length encoded \<le> 96"
      and c: "create_response now language request_type =
               Inr (header now ?code (length encoded) @ encoded)"
    by blast
  let ?response = "header now ?code (length encoded) @ encoded"
  have code: "?code = 1 \<or> ?code = 2 \<or> ?code = 3" by simp
  from n have n': "length encoded < 256" by simp
  note fields = unpack_header [OF now code n', of encoded]
  have sel: "language_select ?code = Some language"
    by (rule language_select_code [OF lang])
  have text_part: "drop 13 ?response = encoded"
    by (simp add: length_header)
  have len: "length ?response = 13 + length encoded"
    by (simp add: length_header)
  have printed: "print_packet_stuff ?response =
      Inr [language @ u '' response received:'',
           u ''Text: '' @ rendering,
           u ''Date: '' @ str_int (day now) @ u ''/'' @ str_int (month now) @ u ''/''
             @ str_int (year now),
           u ''Time: '' @ fmt02 (hour now) @ u '':'' @ fmt02 (minute now)]"
    unfolding print_packet_stuff_def Let_def text_part d fields
    by (simp add: sel str_opt_def)
  have "process_packet ?response = print_packet_stuff ?response"
    unfolding process_packet_def Let_def fields len
    using now y code by (simp add: valid_datetime_def MAGIC_NUM_def)
  with printed have accepted: "process_packet ?response =
      Inr [language @ u '' response received:'',
           u ''Text: '' @ rendering,
           u ''Date: '' @ str_int (day now) @ u ''/'' @ str_int (month now) @ u ''/''
             @ str_int (year now),
           u ''Time: '' @ fmt02 (hour now) @ u '':'' @ fmt02 (minute now)]"
    by simp
  have "pkt_magic_no (unpack ?response) = MAGIC_NUM"
    "pkt_packet_type (unpack ?response) = 0x0002"
    "language_select (pkt_language_type (unpack ?response)) = Some language"
    "pkt_year (unpack ?response) = year now"
    "pkt_month (unpack ?response) = month now"
    "pkt_day (unpack ?response) = day now"
    "pkt_hour (unpack ?response) = hour now"
    "pkt_minute (unpack ?response) = minute now"
    "int (length ?response) = 13 + pkt_length (unpack ?response)"
    unfolding fields len by (simp_all add: MAGIC_NUM_def sel)
  with c r accepted text_part d show ?thesis
    by (intro exI [of _ ?response] exI [of _ rendering]) simp
qed



theorem response_accepted_by_client_witness:
  "valid_datetime \<lparr>year = 2100, month = 12, day = 31, hour = 23, minute = 59\<rparr>
   \<and> (\<exists>response text.
         create_response \<lparr>year = 2100, month = 12, day = 31, hour = 23, minute = 59\<rparr>
           German REQUEST_TIME = Inr response
         \<and> tell_it_what_it_is \<lparr>year = 2100, month = 12, day = 31, hour = 23, minute = 59\<rparr>
             German REQUEST_TIME = Inr (Some text)
         \<and> process_packet response =
             Inr [German @ u '' response received:'',
                  u ''Text: '' @ text,
                  u ''Date: '' @ str_int 31 @ u ''/'' @ str_int 12 @ u ''/'' @ str_int 2100,
                  u ''Time: '' @ fmt02 23 @ u '':'' @ fmt02 59]
         \<and> language_select (pkt_language_type (unpack response)) = Some German
         \<and> pkt_year (unpack response) = 2100
         \<and> pkt_month (unpack response) = 12
         \<and> pkt_day (unpack response) = 31
         \<and> pkt_hour (unpack response) = 23
         \<and> pkt_minute (unpack response) = 59)"
  using response_accepted_by_client
    [of "\<lparr>year = 2100, month = 12, day = 31, hour = 23, minute = 59\<rparr>" German REQUEST_TIME]
  by (auto simp: valid_datetime_def)

text \<open>
  Claim C9. For a datagram that \<open>valid_dt_request\<close> accepted and a socket that
  \<open>get_language\<close> resolves to a language, \<open>tell_it_what_it_is\<close> never falls off its end:
  its result is not \<open>None\<close>, whatever the clock reads. With a reading in the ranges of
  \<open>datetime\<close> it returns a string, encoding that string does not fail, and
  \<open>create_response\<close> returns a packet.
\<close>

theorem text_never_missing:
  assumes valid: "fst (valid_dt_request data)"
    and lang: "get_language self sock = Some language"
  shows "tell_it_what_it_is now language (push_bit 8 (uint (data ! 4)) + uint (data ! 5))
           \<noteq> Inr None
         \<and> (valid_datetime now \<longrightarrow>
              (\<exists>text encoded response.
                 tell_it_what_it_is now language (push_bit 8 (uint (data ! 4)) + uint (data ! 5))
                   = Inr (Some text)
                 \<and> encode (Some text) = Inr encoded
                 \<and> create_response now language (push_bit 8 (uint (data ! 4)) + uint (data ! 5))
                   = Inr response))"
proof (intro conjI impI)
  let ?request_type = "push_bit 8 (uint (data ! 4)) + uint (data ! 5)"
  from valid have kind: "?request_type = REQUEST_DATE \<or> ?request_type = REQUEST_TIME"
    using valid_dt_request_kind [of data] by blast
  from lang have known: "language = English \<or> language = Maori \<or> language = German"
    by (rule get_language_known)
  show "tell_it_what_it_is now language ?request_type \<noteq> Inr None"
    by (rule tell_it_what_it_is_not_None [OF known kind])
  assume now: "valid_datetime now"
  from response_layout [OF now known kind] obtain rendering encoded
    where "tell_it_what_it_is now language ?request_type = Inr (Some rendering)"
      and "encode_utf8 rendering = Inr encoded"
      and "\<exists>response. create_response now language ?request_type = Inr response"
    by blast
  then show "\<exists>text encoded response.
      tell_it_what_it_is now language ?request_type = Inr (Some text)
      \<and> encode (Some text) = Inr encoded
      \<and> create_response now language ?request_type = Inr response"
    by (auto simp: encode_def)
qed


theorem text_never_missing_witness:
  "fst (valid_dt_request [0x36, 0xFB, 0x00, 0x01, 0x00, 0x02])
   \<and> get_language \<lparr>ensock = 3, masock = 4, gersock = 5\<rparr> 4 = Some Maori
   \<and> valid_datetime \<lparr>year = 2024, month = 5, day = 17, hour = 9, minute = 30\<rparr>
   \<and> tell_it_what_it_is \<lparr>year = 2024, month = 5, day = 17, hour = 9, minute = 30\<rparr> Maori
         REQUEST_TIME \<noteq> Inr None
   \<and> (\<exists>text encoded response.
         tell_it_what_it_is \<lparr>year = 2024, month = 5, day = 17, hour = 9, minute = 30\<rparr> Maori
           REQUEST_TIME = Inr (Some text)
         \<and> encode (Some text) = Inr encoded
         \<and> create_response \<lparr>year = 2024, month = 5, day = 17, hour = 9, minute = 30\<rparr> Maori
             REQUEST_TIME = Inr response)"
proof -
  have v: "fst (valid_dt_request [0x36, 0xFB, 0x00, 0x01, 0x00, 0x02])"
    by (simp add: valid_dt_request_wire)
  have l: "get_language \<lparr>ensock = 3, masock = 4, gersock = 5\<rparr> 4 = Some Maori"
    by (simp add: get_language_def)
  have n: "valid_datetime \<lparr>year = 2024, month = 5, day = 17, hour = 9, minute = 30\<rparr>"
    by (simp add: valid_datetime_def)
  have k: "push_bit 8 (uint ([0x36, 0xFB, 0x00, 0x01, 0x00, 0x02 :: byte] ! 4))
             + uint ([0x36, 0xFB, 0x00, 0x01, 0x00, 0x02 :: byte] ! 5) = REQUEST_TIME"
    by (simp add: REQUEST_TIME_def)
  from text_never_missing [OF v l,
      of "\<lparr>year = 2024, month = 5, day = 17, hour = 9, minute = 30\<rparr>"] v l n
  show ?thesis unfolding k by blast
qed

section \<open>The dispatch loop on an accepted request\<close>

text \<open>
  The length test of line 141. For a datagram that \<open>valid_dt_request\<close> accepted, on a
  socket that \<open>get_language\<close> resolves, with a reading of the clock in the ranges of
  \<open>datetime\<close>, \<open>create_response\<close> returns a packet shorter than 255 bytes: the test does
  not fire, the loop body tries one send and does not end the loop. No accepted request
  reaches line 142, so what the server does with a response of 255 bytes or more
  cannot be observed on any run; on the lines themselves, \<open>oversized_response_exits\<close>
  reads it off.
\<close>

lemma accepted_request_answered:
  assumes recv: "received ev = Received data" and valid: "fst (valid_dt_request data)"
    and lang: "get_language self (ready_sock ev) = Some language"
    and now: "valid_datetime (clock ev)"
  shows "\<exists>line response.
           create_response (clock ev) language (push_bit 8 (uint (data ! 4)) + uint (data ! 5))
             = Inr response
           \<and> length response < 255
           \<and> handle_ready self ev =
               (if sendto_succeeds ev then ([line, u ''Response sent''], [response], None)
                else ([line, u ''ERROR: Sending failed, dropping packet''], [], None))
           \<and> for_readable self (ev # readable) =
               (case for_readable self readable of
                  (printed, sent, ended) \<Rightarrow>
                    (if sendto_succeeds ev
                     then ([line, u ''Response sent''] @ printed, [response] @ sent, ended)
                     else ([line, u ''ERROR: Sending failed, dropping packet''] @ printed,
                           sent, ended)))"
proof -
  let ?request_type = "push_bit 8 (uint (data ! 4)) + uint (data ! 5)"
  from valid have kind: "?request_type = REQUEST_DATE \<or> ?request_type = REQUEST_TIME"
    using valid_dt_request_kind [of data] by blast
  from valid have v: "valid_dt_request data = (True, [])"
    by (auto simp: valid_dt_request_def Let_def split: if_splits)
  from lang have known: "language = English \<or> language = Maori \<or> language = German"
    by (rule get_language_known)
  from response_never_oversized [OF now known kind] obtain response
    where r: "create_response (clock ev) language ?request_type = Inr response"
      "length response \<le> 109" by blast
  then have short: "\<not> 255 \<le> length response" "length response < 255" by simp_all
  obtain line where h: "handle_ready self ev =
      (if sendto_succeeds ev then ([line, u ''Response sent''], [response], None)
       else ([line, u ''ERROR: Sending failed, dropping packet''], [], None))"
    using r(1) short(1) by (auto simp: handle_ready_def recv v lang Let_def send_response_def)
  have "for_readable self (ev # readable) =
      (case for_readable self readable of
         (printed, sent, ended) \<Rightarrow>
           (if sendto_succeeds ev
            then ([line, u ''Response sent''] @ printed, [response] @ sent, ended)
            else ([line, u ''ERROR: Sending failed, dropping packet''] @ printed, sent, ended)))"
    by (simp add: h split: prod.splits)
  with r(1) short(2) h show ?thesis by blast
qed

lemma length_test_never_fires:
  assumes "received ev = Received data" and "fst (valid_dt_request data)"
    and "get_language self (ready_sock ev) = Some language"
    and "valid_datetime (clock ev)"
  shows "snd (snd (handle_ready self ev)) = None"
  using accepted_request_answered [OF assms, of "[]"] by (auto split: if_splits)

section \<open>The port arguments of the server\<close>

text \<open>\<open>py_int\<close> on strings tried on the interpreter, and the limit on digits.\<close>

lemma py_int_examples:
  "py_int (u ''05000'') = Some 5000"
  "py_int (u '' 5000'' @ [9]) = Some 5000"
  "py_int (28 # u ''5000'') = None"
  "py_int [0xFF15, 0xFF10, 0xFF10, 0xFF10] = Some 5000"
  "py_int (0xA0 # u ''5000'' @ [0x3000]) = Some 5000"
  "py_int [0x663] = Some 3"
  "py_int [0xB2] = None"
  "py_int (u ''1_000'') = Some 1000"
  "py_int (u ''1__0'') = None"
  "py_int (u ''_1'') = None"
  "py_int (u ''1_'') = None"
  "py_int (u ''+ 5'') = None"
  "py_int (u ''-0'') = Some 0"
  "py_int (u ''-5'') = Some (- 5)"
  "py_int (u ''abc'') = None"
  "py_int [] = None"
  by (simp_all add: py_int_def strip_def is_space_def is_digit_def u_def unicode_space_def
        todecimal_def decimal_zeros_def)

lemma py_int_digit_limit:
  "to_ascii s = Some a \<Longrightarrow> 4300 < length (filter is_digit (strip a)) \<Longrightarrow> py_int s = None"
  by (auto simp: py_int_def Let_def is_digit_def split: list.splits)

text \<open>
  Claim C2 at the arguments \<open>5000 05000 6000\<close>: the second and the first denote the
  same port, the strings differ, and \<open>check_port\<close> lets them through; \<open>self.ports\<close>
  becomes \<open>[5000, 5000, 6000]\<close>.
\<close>

theorem duplicate_port_passes_check:
  "check_port [u ''5000'', u ''05000'', u ''6000''] = Inr [5000, 5000, 6000]"
  by (simp add: check_port_def py_int_def strip_def is_space_def is_digit_def u_def)

end
